theory Spec2Isabelle
  imports Main "HOL-Library.Word" "HOL-Library.Product_Lexorder" "HOL-Library.Char_ord"
    "HOL-Library.List_Lexorder"
begin

section \<open>Data model (models.py)\<close>

text \<open>
  The three enumerations of models.py. Each member has a name (used by
  \<^verbatim>\<open>ComplaintStatus[...]\<close>) and a value (used by \<^verbatim>\<open>.value\<close>).
\<close>

datatype UserRole = CITIZEN | ADMIN | STAFF

datatype ComplaintStatus = PENDING | ACKNOWLEDGED | IN_PROGRESS | ESCALATED | RESOLVED | CLOSED

datatype ComplaintPriority = LOW | MEDIUM | HIGH | CRITICAL

fun UserRole_value :: "UserRole \<Rightarrow> string" where
  "UserRole_value CITIZEN = ''citizen''"
| "UserRole_value ADMIN = ''admin''"
| "UserRole_value STAFF = ''staff''"

fun ComplaintStatus_value :: "ComplaintStatus \<Rightarrow> string" where
  "ComplaintStatus_value PENDING = ''pending''"
| "ComplaintStatus_value ACKNOWLEDGED = ''acknowledged''"
| "ComplaintStatus_value IN_PROGRESS = ''in_progress''"
| "ComplaintStatus_value ESCALATED = ''escalated''"
| "ComplaintStatus_value RESOLVED = ''resolved''"
| "ComplaintStatus_value CLOSED = ''closed''"

text \<open>The members of \<^verbatim>\<open>ComplaintStatus\<close> in definition order, as iterating the enum yields them.\<close>

definition ComplaintStatus_members :: "ComplaintStatus list" where
  "ComplaintStatus_members = [PENDING, ACKNOWLEDGED, IN_PROGRESS, ESCALATED, RESOLVED, CLOSED]"

text \<open>
  What Python raises in the handlers. \<^verbatim>\<open>BadRequestKeyError\<close> is what
  \<^verbatim>\<open>request.form[k]\<close> raises on a missing key, \<^verbatim>\<open>KeyError\<close> what an enum
  lookup by name raises, \<^verbatim>\<open>ValueError\<close> what \<^verbatim>\<open>int(...)\<close> raises,
  \<^verbatim>\<open>AttributeError\<close> an attribute read on \<^verbatim>\<open>None\<close>,
  \<^verbatim>\<open>IntegrityError\<close> a violated \<^verbatim>\<open>unique=True\<close> column at commit, and
  \<^verbatim>\<open>OverflowError\<close> what the SQLite driver raises when it is handed an integer
  that does not fit its 64-bit \<^verbatim>\<open>INTEGER\<close>.
\<close>

datatype py_exc =
    BadRequestKeyError string
  | KeyError string
  | ValueError string
  | AttributeError
  | IntegrityError
  | OverflowError

text \<open>\<^verbatim>\<open>ComplaintStatus[name]\<close> and \<^verbatim>\<open>ComplaintPriority[name]\<close>: lookup by member name.\<close>

definition ComplaintStatus_getitem :: "string \<Rightarrow> py_exc + ComplaintStatus" where
  "ComplaintStatus_getitem n =
     (if n = ''PENDING'' then Inr PENDING
      else if n = ''ACKNOWLEDGED'' then Inr ACKNOWLEDGED
      else if n = ''IN_PROGRESS'' then Inr IN_PROGRESS
      else if n = ''ESCALATED'' then Inr ESCALATED
      else if n = ''RESOLVED'' then Inr RESOLVED
      else if n = ''CLOSED'' then Inr CLOSED
      else Inl (KeyError n))"

definition ComplaintPriority_getitem :: "string \<Rightarrow> py_exc + ComplaintPriority" where
  "ComplaintPriority_getitem n =
     (if n = ''LOW'' then Inr LOW
      else if n = ''MEDIUM'' then Inr MEDIUM
      else if n = ''HIGH'' then Inr HIGH
      else if n = ''CRITICAL'' then Inr CRITICAL
      else Inl (KeyError n))"

text \<open>
  A \<^verbatim>\<open>datetime\<close> value as \<^verbatim>\<open>datetime.utcnow()\<close> returns it. Every call of
  \<^verbatim>\<open>utcnow\<close> in the source is an argument of the model of the handler that makes it.
\<close>

record datetime =
  year :: nat
  month :: nat
  day :: nat
  hour :: nat
  minute :: nat
  second :: nat
  microsecond :: nat

text \<open>
  The mapped classes. A column that two classes share by name carries the class's
  initial as a suffix (\<open>id_u\<close>, \<open>created_at_c\<close>); every other field has the
  column's name. Nullable columns that the code leaves unset are options.
\<close>

record User =
  id_u :: int
  email :: string
  username :: string
  password_hash :: string
  full_name :: string
  phone :: "string option"
  address :: "string option"
  role :: UserRole
  created_at_u :: datetime
  is_active :: int

record Complaint =
  id_c :: int
  ticket_number :: string
  user_id :: int
  title :: string
  description :: string
  category :: string
  location :: "string option"
  status :: ComplaintStatus
  priority :: ComplaintPriority
  assigned_to :: "int option"
  created_at_c :: datetime
  updated_at :: datetime
  resolved_at :: "datetime option"
  escalation_count :: int

record Response =
  id_r :: int
  complaint_id :: int
  responder_id :: int
  message :: string
  is_internal :: int
  created_at_r :: datetime

text \<open>The record store behind \<^verbatim>\<open>db_session\<close>: the rows of the three tables, in insertion order.\<close>

record db =
  users :: "User list"
  complaints :: "Complaint list"
  responses :: "Response list"

text \<open>An integer primary key left unset at insert: one more than the largest key in the table.\<close>

definition next_id :: "int list \<Rightarrow> int" where
  "next_id ks = fold max ks 0 + 1"

text \<open>The integers that SQLite stores and that its driver accepts as a query parameter.\<close>

definition sqlite_integer :: "int \<Rightarrow> bool" where
  "sqlite_integer k \<longleftrightarrow> - (2 ^ 63) \<le> k \<and> k < 2 ^ 63"

text \<open>
  \<^verbatim>\<open>db_session.query(Cls).get(pk)\<close>: the row with that primary key, or \<^verbatim>\<open>None\<close>;
  for a key that is no SQLite integer the query raises.
\<close>

definition get_User :: "db \<Rightarrow> int \<Rightarrow> py_exc + User option" where
  "get_User d k =
     (if sqlite_integer k then Inr (find (\<lambda>u. id_u u = k) (users d)) else Inl OverflowError)"

text \<open>\<^verbatim>\<open>db_session.query(User).filter_by(username=un).first()\<close>.\<close>

definition first_User_by_username :: "db \<Rightarrow> string \<Rightarrow> User option" where
  "first_User_by_username d un = find (\<lambda>x. username x = un) (users d)"

definition get_Complaint :: "db \<Rightarrow> int \<Rightarrow> py_exc + Complaint option" where
  "get_Complaint d k =
     (if sqlite_integer k then Inr (find (\<lambda>c. id_c c = k) (complaints d))
      else Inl OverflowError)"

text \<open>Committing the changed attributes of a loaded row: the row with that key is replaced.\<close>

fun update_first :: "('a \<Rightarrow> bool) \<Rightarrow> ('a \<Rightarrow> 'a) \<Rightarrow> 'a list \<Rightarrow> 'a list" where
  "update_first P f [] = []"
| "update_first P f (x # xs) = (if P x then f x # xs else x # update_first P f xs)"

definition commit_Complaint :: "db \<Rightarrow> int \<Rightarrow> (Complaint \<Rightarrow> Complaint) \<Rightarrow> db" where
  "commit_Complaint d k f = d\<lparr>complaints := update_first (\<lambda>c. id_c c = k) f (complaints d)\<rparr>"

section \<open>Requests, sessions and replies (Flask)\<close>

datatype http_method = GET | POST

text \<open>\<^verbatim>\<open>request.form\<close>: \<^verbatim>\<open>form[k]\<close> raises on a missing key, \<^verbatim>\<open>form.get(k, default)\<close> does not.\<close>

type_synonym form = "string \<rightharpoonup> string"

definition form_getitem :: "form \<Rightarrow> string \<Rightarrow> py_exc + string" where
  "form_getitem frm k = (case frm k of None \<Rightarrow> Inl (BadRequestKeyError k) | Some v \<Rightarrow> Inr v)"

definition form_get :: "form \<Rightarrow> string \<Rightarrow> string \<Rightarrow> string" where
  "form_get frm k dflt = (case frm k of None \<Rightarrow> dflt | Some v \<Rightarrow> v)"

text \<open>Sequencing inside a \<^verbatim>\<open>try\<close> block: the first exception ends the block.\<close>

definition bind_exc :: "py_exc + 'a \<Rightarrow> ('a \<Rightarrow> py_exc + 'b) \<Rightarrow> py_exc + 'b" where
  "bind_exc r f = (case r of Inl e \<Rightarrow> Inl e | Inr v \<Rightarrow> f v)"

text \<open>
  The Flask session holds the identity that \<^verbatim>\<open>login\<close> stores: the keys
  \<^verbatim>\<open>user_id\<close>, \<^verbatim>\<open>username\<close> and \<^verbatim>\<open>role\<close> are set together and cleared
  together, so the session is either empty or one identity.
\<close>

record identity =
  sess_user_id :: int
  sess_username :: string
  sess_role :: string
  permanent :: bool

type_synonym session = "identity option"

text \<open>
  A flashed message and its category. \<open>Text s\<close> is a message whose text is known;
  \<open>WithExc p e\<close> is the f-string of prefix \<open>p\<close> and \<^verbatim>\<open>str(e)\<close>.
\<close>

datatype flash_text = Text string | WithExc string py_exc

type_synonym flash = "flash_text \<times> string"

text \<open>The targets of \<^verbatim>\<open>url_for\<close> and the replies a handler returns.\<close>

datatype endpoint =
    index_ep
  | login_ep
  | register_ep
  | user_dashboard_ep
  | admin_dashboard_ep
  | view_complaint_ep int

datatype reply =
    Redirect endpoint
  | Render string
  | Json404 string
  | Abort400 py_exc
  | Abort500 py_exc
  | RenderComplaint Complaint "Response list"
  | RenderReports nat "(string \<times> nat) list" "string list"

text \<open>
  The decorators. \<open>login_required\<close> lets a request through when the session holds
  \<^verbatim>\<open>user_id\<close>; \<open>admin_required\<close> also loads the user and checks the role. The
  result is the early reply of the decorator, or \<open>None\<close> when the handler runs.
  An exception that no \<^verbatim>\<open>try\<close> catches ends the request with a server error.
\<close>

definition login_required :: "session \<Rightarrow> (flash list \<times> reply) option" where
  "login_required sess =
     (case sess of
        None \<Rightarrow> Some ([(Text ''Please log in to access this page.'', ''error'')], Redirect login_ep)
      | Some s \<Rightarrow> None)"

definition admin_required :: "db \<Rightarrow> session \<Rightarrow> (flash list \<times> reply) option" where
  "admin_required d sess =
     (case sess of
        None \<Rightarrow> Some ([], Redirect login_ep)
      | Some s \<Rightarrow>
          (case get_User d (sess_user_id s) of
             Inl e \<Rightarrow> Some ([], Abort500 e)
           | Inr None \<Rightarrow>
               Some ([(Text ''Access denied. Admin privileges required.'', ''error'')],
                     Redirect index_ep)
           | Inr (Some user) \<Rightarrow>
               if role user \<notin> set [ADMIN, STAFF]
               then Some ([(Text ''Access denied. Admin privileges required.'', ''error'')],
                          Redirect index_ep)
               else None))"

section \<open>Handlers (app.py)\<close>

subsection \<open>escalate_complaint\<close>

definition escalate_complaint ::
  "datetime \<Rightarrow> int \<Rightarrow> db \<Rightarrow> session \<Rightarrow> db \<times> flash list \<times> reply" where
  "escalate_complaint now cid d sess =
     (case admin_required d sess of
        Some (fl, rp) \<Rightarrow> (d, fl, rp)
      | None \<Rightarrow>
          (case get_Complaint d cid of
             Inl e \<Rightarrow> (d, [], Abort500 e)
           | Inr (Some complaint) \<Rightarrow>
               (commit_Complaint d cid
                  (\<lambda>c. c\<lparr>status := ESCALATED,
                          escalation_count := escalation_count c + 1,
                          priority := HIGH,
                          updated_at := now\<rparr>),
                [(Text ''Complaint escalated successfully!'', ''success'')],
                Redirect (view_complaint_ep cid))
           | Inr None \<Rightarrow> (d, [], Redirect (view_complaint_ep cid))))"

subsection \<open>register and the bootstrap of the admin user\<close>

text \<open>
  \<^verbatim>\<open>db_session.add(user); db_session.commit()\<close>: the key is assigned, and the
  \<^verbatim>\<open>unique=True\<close> columns \<open>email\<close> and \<open>username\<close> are checked.
\<close>

definition add_User :: "db \<Rightarrow> User \<Rightarrow> py_exc + db" where
  "add_User d u =
     (if find (\<lambda>x. email x = email u \<or> username x = username u) (users d) \<noteq> None
      then Inl IntegrityError
      else Inr (d\<lparr>users := users d @ [u\<lparr>id_u := next_id (map id_u (users d))\<rparr>]\<rparr>))"

text \<open>
  The body of the \<^verbatim>\<open>try\<close> block of \<open>register\<close>. The arguments
  \<open>generate_password_hash\<close> (werkzeug's salted hash, for this call) and \<open>now\<close>
  (the column default of \<open>created_at\<close>) are what the environment supplies.
\<close>

definition register_try ::
  "(string \<Rightarrow> string) \<Rightarrow> datetime \<Rightarrow> form \<Rightarrow> db \<Rightarrow> py_exc + (db \<times> flash list \<times> reply)" where
  "register_try generate_password_hash now frm d =
     bind_exc (form_getitem frm ''email'') (\<lambda>em.
     bind_exc (form_getitem frm ''username'') (\<lambda>un.
       case find (\<lambda>x. email x = em \<or> username x = un) (users d) of
         Some existing_user \<Rightarrow>
           Inr (d, [(Text ''Email or username already exists!'', ''error'')], Redirect register_ep)
       | None \<Rightarrow>
           bind_exc (form_getitem frm ''full_name'') (\<lambda>fn.
           bind_exc (form_getitem frm ''password'') (\<lambda>pw.
           bind_exc
             (add_User d
                \<lparr>id_u = 0, email = em, username = un,
                 password_hash = generate_password_hash pw, full_name = fn,
                 phone = Some (form_get frm ''phone'' []),
                 address = Some (form_get frm ''address'' []),
                 role = CITIZEN, created_at_u = now, is_active = 1\<rparr>)
             (\<lambda>d'. Inr (d', [(Text ''Registration successful! Please log in.'', ''success'')],
                         Redirect login_ep))))))"

definition register ::
  "(string \<Rightarrow> string) \<Rightarrow> datetime \<Rightarrow> http_method \<Rightarrow> form \<Rightarrow> db \<Rightarrow> db \<times> flash list \<times> reply" where
  "register generate_password_hash now meth frm d =
     (if meth = POST then
        (case register_try generate_password_hash now frm d of
           Inr r \<Rightarrow> r
         | Inl e \<Rightarrow> (d, [(WithExc ''Registration failed: '' e, ''error'')], Redirect register_ep))
      else (d, [], Render ''register.html''))"

text \<open>
  \<open>create_admin_user\<close> of models.py returns the admin user, after creating it when no
  user is named \<^verbatim>\<open>admin\<close>. Its commit is outside any \<^verbatim>\<open>try\<close>.
\<close>

definition create_admin_user ::
  "(string \<Rightarrow> string) \<Rightarrow> datetime \<Rightarrow> db \<Rightarrow> py_exc + (db \<times> User)" where
  "create_admin_user generate_password_hash now d =
     (case first_User_by_username d ''admin'' of
        Some admin \<Rightarrow> Inr (d, admin)
      | None \<Rightarrow>
          bind_exc
            (add_User d
               \<lparr>id_u = 0, email = ''admin@localgov.com'', username = ''admin'',
                password_hash = generate_password_hash ''admin123'',
                full_name = ''System Administrator'',
                phone = Some ''0000000000'', address = None,
                role = ADMIN, created_at_u = now, is_active = 1\<rparr>)
            (\<lambda>d'. Inr (d', last (users d'))))"

subsection \<open>login\<close>

text \<open>
  \<open>check_password_hash\<close> is werkzeug's verification of a password against a stored
  hash. The two \<^verbatim>\<open>request.form[...]\<close> reads are outside any \<^verbatim>\<open>try\<close>: a missing
  key ends the request with the error reply.
\<close>

definition login ::
  "(string \<Rightarrow> string \<Rightarrow> bool) \<Rightarrow> http_method \<Rightarrow> form \<Rightarrow> db \<Rightarrow> session
     \<Rightarrow> session \<times> flash list \<times> reply" where
  "login check_password_hash meth frm d sess =
     (if meth = POST then
        (case form_getitem frm ''username'' of
           Inl e \<Rightarrow> (sess, [], Abort400 e)
         | Inr un \<Rightarrow>
             (case form_getitem frm ''password'' of
                Inl e \<Rightarrow> (sess, [], Abort400 e)
              | Inr pw \<Rightarrow>
                  (case first_User_by_username d un of
                     Some user \<Rightarrow>
                       if check_password_hash (password_hash user) pw \<and> is_active user \<noteq> 0
                       then
                         (Some \<lparr>sess_user_id = id_u user, sess_username = username user,
                                sess_role = UserRole_value (role user), permanent = True\<rparr>,
                          [(Text (''Welcome back, '' @ full_name user @ ''!''), ''success'')],
                          if role user \<in> set [ADMIN, STAFF]
                          then Redirect admin_dashboard_ep
                          else Redirect user_dashboard_ep)
                       else
                         (sess, [(Text ''Invalid credentials or inactive account!'', ''error'')],
                          Render ''login.html'')
                   | None \<Rightarrow>
                       (sess, [(Text ''Invalid credentials or inactive account!'', ''error'')],
                        Render ''login.html''))))
      else (sess, [], Render ''login.html''))"

subsection \<open>new_complaint\<close>

text \<open>
  \<^verbatim>\<open>strftime('%Y%m%d')\<close>: the year on four digits, the month and the day on two.
  A \<^verbatim>\<open>datetime\<close> has a year of at most 9999, a month of at most 12 and a day of
  at most 31, so no digit is lost.
\<close>

definition digit_char :: "nat \<Rightarrow> char" where
  "digit_char n = char_of (48 + n mod 10)"

fun zero_padded :: "nat \<Rightarrow> nat \<Rightarrow> string" where
  "zero_padded 0 n = []"
| "zero_padded (Suc w) n = zero_padded w (n div 10) @ [digit_char n]"

definition strftime_Ymd :: "datetime \<Rightarrow> string" where
  "strftime_Ymd t = zero_padded 4 (year t) @ zero_padded 2 (month t) @ zero_padded 2 (day t)"

text \<open>
  \<^verbatim>\<open>secrets.token_hex(3)\<close> is the lower-case hexadecimal text of three random bytes;
  the bytes are an argument. \<^verbatim>\<open>.upper()\<close> is modelled on ASCII text.
\<close>

definition hex_char :: "nat \<Rightarrow> char" where
  "hex_char n = (if n mod 16 < 10 then char_of (48 + n mod 16) else char_of (87 + n mod 16))"

definition hex_byte :: "8 word \<Rightarrow> string" where
  "hex_byte b = [hex_char (unat b div 16), hex_char (unat b mod 16)]"

definition token_hex :: "8 word \<times> 8 word \<times> 8 word \<Rightarrow> string" where
  "token_hex rnd = (case rnd of (b1, b2, b3) \<Rightarrow> hex_byte b1 @ hex_byte b2 @ hex_byte b3)"

definition upper_char :: "char \<Rightarrow> char" where
  "upper_char c =
     (if (97::nat) \<le> of_char c \<and> of_char c \<le> (122::nat) then char_of (of_char c - (32::nat)) else c)"

definition upper :: "string \<Rightarrow> string" where
  "upper s = map upper_char s"

definition make_ticket_number :: "datetime \<Rightarrow> 8 word \<times> 8 word \<times> 8 word \<Rightarrow> string" where
  "make_ticket_number now rnd = ''COMP-'' @ strftime_Ymd now @ ''-'' @ upper (token_hex rnd)"

text \<open>Insert of a complaint: the key is assigned and the unique \<open>ticket_number\<close> is checked.\<close>

definition add_Complaint :: "db \<Rightarrow> Complaint \<Rightarrow> py_exc + db" where
  "add_Complaint d c =
     (if find (\<lambda>x. ticket_number x = ticket_number c) (complaints d) \<noteq> None
      then Inl IntegrityError
      else Inr (d\<lparr>complaints := complaints d @ [c\<lparr>id_c := next_id (map id_c (complaints d))\<rparr>]\<rparr>))"

text \<open>
  The \<^verbatim>\<open>try\<close> block of \<open>new_complaint\<close>. \<open>now\<close> is the clock read for the ticket
  number, \<open>t_created\<close> and \<open>t_updated\<close> the reads of the two column defaults, \<open>rnd\<close>
  the random bytes. \<open>status\<close> and \<open>escalation_count\<close> are not passed to the
  constructor and take their column defaults.
\<close>

definition new_complaint_try ::
  "datetime \<Rightarrow> datetime \<Rightarrow> datetime \<Rightarrow> 8 word \<times> 8 word \<times> 8 word \<Rightarrow> identity \<Rightarrow> form \<Rightarrow> db
     \<Rightarrow> py_exc + db" where
  "new_complaint_try now t_created t_updated rnd s frm d =
     bind_exc (form_getitem frm ''title'') (\<lambda>ti.
     bind_exc (form_getitem frm ''description'') (\<lambda>de.
     bind_exc (form_getitem frm ''category'') (\<lambda>ca.
     bind_exc (ComplaintPriority_getitem (form_get frm ''priority'' ''MEDIUM'')) (\<lambda>pr.
       add_Complaint d
         \<lparr>id_c = 0, ticket_number = make_ticket_number now rnd,
          user_id = sess_user_id s, title = ti, description = de, category = ca,
          location = Some (form_get frm ''location'' []),
          status = PENDING, priority = pr, assigned_to = None,
          created_at_c = t_created, updated_at = t_updated, resolved_at = None,
          escalation_count = 0\<rparr>))))"

definition new_complaint ::
  "datetime \<Rightarrow> datetime \<Rightarrow> datetime \<Rightarrow> 8 word \<times> 8 word \<times> 8 word \<Rightarrow> http_method \<Rightarrow> form
     \<Rightarrow> db \<Rightarrow> session \<Rightarrow> db \<times> flash list \<times> reply" where
  "new_complaint now t_created t_updated rnd meth frm d sess =
     (case login_required sess of
        Some (fl, rp) \<Rightarrow> (d, fl, rp)
      | None \<Rightarrow>
          if meth = POST then
            (case new_complaint_try now t_created t_updated rnd (the sess) frm d of
               Inr d' \<Rightarrow>
                 (d',
                  [(Text (''Complaint submitted successfully! Ticket: '' @ make_ticket_number now rnd),
                    ''success'')],
                  Redirect user_dashboard_ep)
             | Inl e \<Rightarrow>
                 (d, [(WithExc ''Failed to submit complaint: '' e, ''error'')],
                  Render ''new_complaint.html''))
          else (d, [], Render ''new_complaint.html''))"

subsection \<open>update_complaint\<close>

text \<open>
  The \<^verbatim>\<open>try\<close> block of \<open>update_complaint\<close>, as the change it makes to the loaded
  complaint. \<open>py_int\<close> is Python's \<^verbatim>\<open>int(str)\<close>, \<open>None\<close> where it raises;
  \<open>t_resolved\<close> and \<open>t_updated\<close> are the two clock reads. An assignee that is
  no SQLite integer makes the commit raise; nothing between the assignment and the
  commit can raise, so the model raises at the assignment.
\<close>

definition update_complaint_try ::
  "(string \<Rightarrow> int option) \<Rightarrow> datetime \<Rightarrow> datetime \<Rightarrow> form \<Rightarrow> Complaint \<Rightarrow> py_exc + Complaint" where
  "update_complaint_try py_int t_resolved t_updated frm c =
     bind_exc
       (case frm ''status'' of
          None \<Rightarrow> Inr c
        | Some sv \<Rightarrow>
            bind_exc (ComplaintStatus_getitem sv) (\<lambda>new_status.
              Inr (if new_status = RESOLVED
                   then c\<lparr>status := new_status, resolved_at := Some t_resolved\<rparr>
                   else c\<lparr>status := new_status\<rparr>)))
       (\<lambda>c1.
     bind_exc
       (case frm ''priority'' of
          None \<Rightarrow> Inr c1
        | Some pv \<Rightarrow>
            bind_exc (ComplaintPriority_getitem pv) (\<lambda>p. Inr (c1\<lparr>priority := p\<rparr>)))
       (\<lambda>c2.
     bind_exc
       (case frm ''assigned_to'' of
          None \<Rightarrow> Inr c2
        | Some av \<Rightarrow>
            if av = [] then Inr c2
            else (case py_int av of
                    None \<Rightarrow> Inl (ValueError av)
                  | Some n \<Rightarrow>
                      if sqlite_integer n then Inr (c2\<lparr>assigned_to := Some n\<rparr>)
                      else Inl OverflowError))
       (\<lambda>c3. Inr (c3\<lparr>updated_at := t_updated\<rparr>))))"

definition update_complaint ::
  "(string \<Rightarrow> int option) \<Rightarrow> datetime \<Rightarrow> datetime \<Rightarrow> int \<Rightarrow> form \<Rightarrow> db \<Rightarrow> session
     \<Rightarrow> db \<times> flash list \<times> reply" where
  "update_complaint py_int t_resolved t_updated cid frm d sess =
     (case admin_required d sess of
        Some (fl, rp) \<Rightarrow> (d, fl, rp)
      | None \<Rightarrow>
          (case get_Complaint d cid of
             Inl e \<Rightarrow> (d, [], Abort500 e)
           | Inr None \<Rightarrow> (d, [], Json404 ''Complaint not found'')
           | Inr (Some complaint) \<Rightarrow>
               (case update_complaint_try py_int t_resolved t_updated frm complaint of
                  Inr c' \<Rightarrow>
                    (commit_Complaint d cid (\<lambda>c. c'),
                     [(Text ''Complaint updated successfully!'', ''success'')],
                     Redirect (view_complaint_ep cid))
                | Inl e \<Rightarrow>
                    (d, [(WithExc ''Update failed: '' e, ''error'')],
                     Redirect (view_complaint_ep cid)))))"

subsection \<open>respond_to_complaint\<close>

definition add_Response :: "db \<Rightarrow> Response \<Rightarrow> db" where
  "add_Response d r = d\<lparr>responses := responses d @ [r\<lparr>id_r := next_id (map id_r (responses d))\<rparr>]\<rparr>"

text \<open>
  The \<^verbatim>\<open>try\<close> block of \<open>respond_to_complaint\<close>; \<open>user\<close> is the user loaded for
  the session's \<^verbatim>\<open>user_id\<close>, on which \<^verbatim>\<open>user.role\<close> raises when none was found.
\<close>

definition respond_try ::
  "datetime \<Rightarrow> int \<Rightarrow> identity \<Rightarrow> User option \<Rightarrow> form \<Rightarrow> db \<Rightarrow> py_exc + db" where
  "respond_try now cid s user frm d =
     (case user of
        None \<Rightarrow> Inl AttributeError
      | Some u \<Rightarrow>
          bind_exc (form_getitem frm ''message'') (\<lambda>msg.
            Inr (add_Response d
              \<lparr>id_r = 0, complaint_id = cid, responder_id = sess_user_id s, message = msg,
               is_internal =
                 (if role u \<in> set [ADMIN, STAFF]
                  then (if frm ''internal'' = Some ''on'' then 1 else 0)
                  else 0),
               created_at_r = now\<rparr>)))"

definition respond_to_complaint ::
  "datetime \<Rightarrow> int \<Rightarrow> form \<Rightarrow> db \<Rightarrow> session \<Rightarrow> db \<times> flash list \<times> reply" where
  "respond_to_complaint now cid frm d sess =
     (case login_required sess of
        Some (fl, rp) \<Rightarrow> (d, fl, rp)
      | None \<Rightarrow>
          (case get_Complaint d cid of
             Inl e \<Rightarrow> (d, [], Abort500 e)
           | Inr complaint \<Rightarrow>
               (case get_User d (sess_user_id (the sess)) of
                  Inl e \<Rightarrow> (d, [], Abort500 e)
                | Inr user \<Rightarrow>
                    (case complaint of
                       None \<Rightarrow>
                         (d, [(Text ''Complaint not found!'', ''error'')],
                          Redirect user_dashboard_ep)
                     | Some c \<Rightarrow>
                         (case respond_try now cid (the sess) user frm d of
                            Inr d' \<Rightarrow>
                              (d', [(Text ''Response added successfully!'', ''success'')],
                               Redirect (view_complaint_ep cid))
                          | Inl e \<Rightarrow>
                              (d, [(WithExc ''Failed to add response: '' e, ''error'')],
                               Redirect (view_complaint_ep cid)))))))"

subsection \<open>reports\<close>

text \<open>
  \<^verbatim>\<open>query(Complaint.category).group_by(Complaint.category).all()\<close>: one row per
  distinct category, each row holding the category and nothing else. SQLite forms
  the groups by sorting on the key, so the rows come in ascending order of the
  category, compared byte by byte.
\<close>

definition group_by_category :: "Complaint list \<Rightarrow> string list" where
  "group_by_category cs = sort (remdups (map category cs))"

definition count_status :: "db \<Rightarrow> ComplaintStatus \<Rightarrow> nat" where
  "count_status d st = length (filter (\<lambda>c. status c = st) (complaints d))"

definition reports :: "db \<Rightarrow> session \<Rightarrow> flash list \<times> reply" where
  "reports d sess =
     (case admin_required d sess of
        Some (fl, rp) \<Rightarrow> (fl, rp)
      | None \<Rightarrow>
          ([], RenderReports
                 (length (complaints d))
                 (map (\<lambda>st. (ComplaintStatus_value st, count_status d st)) ComplaintStatus_members)
                 (group_by_category (complaints d))))"

text \<open>The \<open>category_counts\<close> that \<open>reports\<close> hands to its template, when it renders.\<close>

definition category_counts :: "flash list \<times> reply \<Rightarrow> string list option" where
  "category_counts r = (case snd r of RenderReports n sc cc \<Rightarrow> Some cc | _ \<Rightarrow> None)"

subsection \<open>view_complaint\<close>

text \<open>
  \<open>view_complaint\<close> checks that a citizen owns the complaint, then lists the
  responses by ascending \<open>created_at\<close>, without the internal ones for a citizen.
  \<^verbatim>\<open>user.role\<close> is read outside any \<^verbatim>\<open>try\<close>.
\<close>

definition datetime_key :: "datetime \<Rightarrow> nat \<times> nat \<times> nat \<times> nat \<times> nat \<times> nat \<times> nat" where
  "datetime_key t = (year t, month t, day t, hour t, minute t, second t, microsecond t)"

definition view_complaint :: "int \<Rightarrow> db \<Rightarrow> session \<Rightarrow> flash list \<times> reply" where
  "view_complaint cid d sess =
     (case login_required sess of
        Some r \<Rightarrow> r
      | None \<Rightarrow>
          (case get_Complaint d cid of
             Inl e \<Rightarrow> ([], Abort500 e)
           | Inr None \<Rightarrow>
               ([(Text ''Complaint not found!'', ''error'')], Redirect user_dashboard_ep)
           | Inr (Some complaint) \<Rightarrow>
               (case get_User d (sess_user_id (the sess)) of
                  Inl e \<Rightarrow> ([], Abort500 e)
                | Inr None \<Rightarrow> ([], Abort500 AttributeError)
                | Inr (Some user) \<Rightarrow>
                    if role user = CITIZEN \<and> user_id complaint \<noteq> id_u user
                    then ([(Text ''Access denied!'', ''error'')], Redirect user_dashboard_ep)
                    else
                      ([], RenderComplaint complaint
                             (sort_key (\<lambda>r. datetime_key (created_at_r r))
                                (filter (\<lambda>r. complaint_id r = cid \<and>
                                              (if role user = CITIZEN then is_internal r = 0 else True))
                                   (responses d)))))))"

section \<open>A concrete store\<close>

text \<open>
  One administrator and three citizens, the last of them inactive; one complaint,
  owned by the first citizen, that is already resolved, critical and twice escalated.
\<close>

definition t0 :: datetime where
  "t0 = \<lparr>year = 2024, month = 3, day = 9, hour = 10, minute = 30, second = 0, microsecond = 0\<rparr>"

definition t1 :: datetime where
  "t1 = \<lparr>year = 2024, month = 3, day = 11, hour = 8, minute = 5, second = 42, microsecond = 17\<rparr>"

definition t2 :: datetime where
  "t2 = \<lparr>year = 2024, month = 4, day = 2, hour = 16, minute = 0, second = 1, microsecond = 250\<rparr>"

definition admin0 :: User where
  "admin0 = \<lparr>id_u = 1, email = ''admin@localgov.com'', username = ''admin'',
              password_hash = ''h:admin123'', full_name = ''System Administrator'',
              phone = Some ''0000000000'', address = None, role = ADMIN,
              created_at_u = t0, is_active = 1\<rparr>"

definition alice :: User where
  "alice = \<lparr>id_u = 2, email = ''alice@example.org'', username = ''alice'',
             password_hash = ''h:wonderland'', full_name = ''Alice A'',
             phone = Some [], address = Some [], role = CITIZEN,
             created_at_u = t0, is_active = 1\<rparr>"

definition bob :: User where
  "bob = \<lparr>id_u = 3, email = ''bob@example.org'', username = ''bob'',
           password_hash = ''h:builder'', full_name = ''Bob B'',
           phone = Some [], address = Some [], role = CITIZEN,
           created_at_u = t0, is_active = 1\<rparr>"

definition carol :: User where
  "carol = \<lparr>id_u = 4, email = ''carol@example.org'', username = ''carol'',
             password_hash = ''h:singer'', full_name = ''Carol C'',
             phone = Some [], address = Some [], role = CITIZEN,
             created_at_u = t0, is_active = 0\<rparr>"

definition pothole :: Complaint where
  "pothole = \<lparr>id_c = 1, ticket_number = ''COMP-20240309-0A1B2C'', user_id = 2,
               title = ''Pothole'', description = ''Deep pothole on Main Street'',
               category = ''Roads & Infrastructure'', location = Some ''Main Street'',
               status = RESOLVED, priority = CRITICAL, assigned_to = None,
               created_at_c = t0, updated_at = t0, resolved_at = Some t0,
               escalation_count = 2\<rparr>"

definition store0 :: db where
  "store0 = \<lparr>users = [admin0, alice, bob, carol], complaints = [pothole], responses = []\<rparr>"

text \<open>A second store, in which the second citizen has filed a complaint with an empty category.\<close>

definition blank :: Complaint where
  "blank = \<lparr>id_c = 2, ticket_number = ''COMP-20240311-FFEE01'', user_id = 3,
             title = ''Noise'', description = ''Loud generator at night'',
             category = [], location = Some [],
             status = PENDING, priority = MEDIUM, assigned_to = None,
             created_at_c = t1, updated_at = t1, resolved_at = None,
             escalation_count = 0\<rparr>"

definition store1 :: db where
  "store1 = \<lparr>users = [admin0, alice, bob, carol], complaints = [pothole, blank], responses = []\<rparr>"

text \<open>
  The report by category as the specification words it, for comparison with
  \<open>reports\<close>: each distinct non-empty category with the number of complaints
  that have it.
\<close>

definition countByCategory_spec :: "Complaint list \<Rightarrow> (string \<times> nat) list" where
  "countByCategory_spec cs =
     map (\<lambda>k. (k, length (filter (\<lambda>c. category c = k) cs)))
       (filter (\<lambda>k. k \<noteq> []) (remdups (map category cs)))"

text \<open>The session that \<open>login\<close> stores for a user.\<close>

definition session_of :: "User \<Rightarrow> session" where
  "session_of u = Some \<lparr>sess_user_id = id_u u, sess_username = username u,
                         sess_role = UserRole_value (role u), permanent = True\<rparr>"

text \<open>A hash and its check that agree on the passwords of the concrete store.\<close>

definition hash0 :: "string \<Rightarrow> string" where
  "hash0 pw = ''h:'' @ pw"

definition check0 :: "string \<Rightarrow> string \<Rightarrow> bool" where
  "check0 h pw = (h = hash0 pw)"

text \<open>
  Two registration forms that share their email, the first also asking for a role,
  and the user that the first one registers in the concrete store.
\<close>

definition dave_form :: form where
  "dave_form = [''email'' \<mapsto> ''dave@example.org'', ''username'' \<mapsto> ''dave'',
                ''full_name'' \<mapsto> ''Dave D'', ''password'' \<mapsto> ''drums'',
                ''role'' \<mapsto> ''admin'']"

definition david_form :: form where
  "david_form = [''email'' \<mapsto> ''dave@example.org'', ''username'' \<mapsto> ''david'',
                 ''full_name'' \<mapsto> ''David D'', ''password'' \<mapsto> ''guitar'']"

definition dave :: User where
  "dave = \<lparr>id_u = 5, email = ''dave@example.org'', username = ''dave'',
            password_hash = ''h:drums'', full_name = ''Dave D'',
            phone = Some [], address = Some [], role = CITIZEN,
            created_at_u = t1, is_active = 1\<rparr>"

text \<open>A complaint form without a priority, and the complaint that the first citizen files with it.\<close>

definition leak_form :: form where
  "leak_form = [''title'' \<mapsto> ''Leak'', ''description'' \<mapsto> ''Burst pipe'',
                ''category'' \<mapsto> ''Water Supply'']"

definition leak :: Complaint where
  "leak = \<lparr>id_c = 2, ticket_number = ''COMP-20240311-0AB1FF'', user_id = 2,
            title = ''Leak'', description = ''Burst pipe'',
            category = ''Water Supply'', location = Some [],
            status = PENDING, priority = MEDIUM, assigned_to = None,
            created_at_c = t1, updated_at = t1, resolved_at = None,
            escalation_count = 0\<rparr>"

section \<open>The ticket pattern of the specification\<close>

text \<open>
  The pattern \<^verbatim>\<open>COMP-<8 decimal digits>-<6 upper-case hexadecimal characters>\<close> as
  a check on a string, and the number that a string of decimal digits reads as.
\<close>

definition is_decimal_digit :: "char \<Rightarrow> bool" where
  "is_decimal_digit c \<longleftrightarrow> c \<in> set ''0123456789''"

definition is_upper_hex_digit :: "char \<Rightarrow> bool" where
  "is_upper_hex_digit c \<longleftrightarrow> c \<in> set ''0123456789ABCDEF''"

definition ticket_form :: "string \<Rightarrow> bool" where
  "ticket_form t \<longleftrightarrow>
     length t = 20 \<and> take 5 t = ''COMP-'' \<and>
     list_all is_decimal_digit (take 8 (drop 5 t)) \<and>
     take 1 (drop 13 t) = ''-'' \<and>
     list_all is_upper_hex_digit (drop 14 t)"

definition decimal_value :: "string \<Rightarrow> nat" where
  "decimal_value s = foldl (\<lambda>a c. 10 * a + (of_char c - 48)) 0 s"

section \<open>Store lemmas\<close>


lemma find_Some_holds: "find P xs = Some x \<Longrightarrow> P x"
  by (induction xs) (auto split: if_splits)


lemma get_User_Some:
  assumes "get_User d k = Inr (Some u)"
  shows "id_u u = k" and "sqlite_integer k"
  using assms by (auto simp: get_User_def split: if_splits dest: find_Some_holds)


lemma admin_required_passes:
  assumes "sess = Some s" and "get_User d (sess_user_id s) = Inr (Some actor)"
    and "role actor = ADMIN \<or> role actor = STAFF"
  shows "admin_required d sess = None"
  using assms by (auto simp: admin_required_def)

section \<open>Escalation\<close>



text \<open>
  C10, as the code has it. When no complaint has the id, \<open>escalate_complaint\<close> by
  an administrator or a staff member returns the store as it was, flashes nothing
  (neither an error nor the success message) and gives no not-found reply; when the
  id is one that the store can look up, an SQLite integer, the reply is the redirect
  to the page of that complaint id.
\<close>

theorem escalate_missing_redirects:
  assumes "sess = Some s"
    and "get_User d (sess_user_id s) = Inr (Some actor)"
    and "role actor = ADMIN \<or> role actor = STAFF"
    and "cid \<notin> id_c ` set (complaints d)"
  shows "fst (escalate_complaint now cid d sess) = d \<and>
         fst (snd (escalate_complaint now cid d sess)) = [] \<and>
         (\<forall>m. snd (snd (escalate_complaint now cid d sess)) \<noteq> Json404 m) \<and>
         (if sqlite_integer cid
          then snd (snd (escalate_complaint now cid d sess)) = Redirect (view_complaint_ep cid)
          else True)"
proof -
  have pass: "admin_required d sess = None"
    using assms(1-3) by (rule admin_required_passes)
  have "find (\<lambda>c. id_c c = cid) (complaints d) = None"
    using assms(4) by (force simp: find_None_iff)
  then have "get_Complaint d cid = (if sqlite_integer cid then Inr None else Inl OverflowError)"
    by (simp add: get_Complaint_def)
  with pass show ?thesis
    by (simp add: escalate_complaint_def)
qed

theorem escalate_missing_redirects_witness:
  "7 \<notin> id_c ` set (complaints store0) \<and>
   escalate_complaint t1 7 store0 (session_of admin0) = (store0, [], Redirect (view_complaint_ep 7))"
proof -
  have a: "session_of admin0 = Some \<lparr>sess_user_id = 1, sess_username = ''admin'',
             sess_role = ''admin'', permanent = True\<rparr>"
    by (simp add: session_of_def admin0_def)
  have b: "get_User store0 (sess_user_id \<lparr>sess_user_id = 1, sess_username = ''admin'',
             sess_role = ''admin'', permanent = True\<rparr>) = Inr (Some admin0)"
    by (simp add: get_User_def sqlite_integer_def store0_def admin0_def)
  have c: "role admin0 = ADMIN \<or> role admin0 = STAFF"
    by (simp add: admin0_def)
  have e: "7 \<notin> id_c ` set (complaints store0)"
    by (simp add: store0_def pothole_def)
  have i: "sqlite_integer 7"
    by (simp add: sqlite_integer_def)
  from escalate_missing_redirects [OF a b c e, of t1] i e show ?thesis
    by (simp add: prod_eq_iff)
qed

text \<open>
  C10 as claimed fails for an id that is no SQLite integer: the lookup raises outside
  any \<^verbatim>\<open>try\<close>, and the request ends with a server error where the claim has the
  redirect.
\<close>

theorem escalate_missing_overflow:
  "9223372036854775808 \<notin> id_c ` set (complaints store0) \<and>
   escalate_complaint t1 9223372036854775808 store0 (session_of admin0) =
     (store0, [], Abort500 OverflowError)"
  by (simp add: escalate_complaint_def admin_required_def session_of_def get_User_def
      get_Complaint_def sqlite_integer_def store0_def admin0_def pothole_def)

section \<open>Responses\<close>

lemma respond_responses:
  assumes "sess = Some s" and "get_User d (sess_user_id s) = Inr (Some u)"
  shows "responses (fst (respond_to_complaint now cid frm d sess)) =
           (if (\<exists>c. get_Complaint d cid = Inr (Some c)) \<and> frm ''message'' \<noteq> None
            then responses d @
                   [\<lparr>id_r = next_id (map id_r (responses d)), complaint_id = cid,
                     responder_id = sess_user_id s, message = the (frm ''message''),
                     is_internal =
                       (if (role u = ADMIN \<or> role u = STAFF) \<and> frm ''internal'' = Some ''on''
                        then 1 else 0),
                     created_at_r = now\<rparr>]
            else responses d)"
  using assms
  by (auto simp: respond_to_complaint_def respond_try_def login_required_def
      form_getitem_def bind_exc_def add_Response_def split: option.splits sum.splits)

text \<open>
  C2. The claim asks that a citizen who does not own a complaint be refused when
  responding to it. \<open>respond_to_complaint\<close> makes no ownership check: in the
  concrete store the citizen \<open>bob\<close> responds to the complaint of \<open>alice\<close>, the
  response is stored and success is flashed, although \<open>view_complaint\<close> refuses
  the same citizen the same complaint.
\<close>

theorem respond_by_non_owner_is_accepted:
  "role bob = CITIZEN \<and> user_id pothole \<noteq> id_u bob \<and>
   get_Complaint store0 1 = Inr (Some pothole) \<and>
   respond_to_complaint t1 1 [''message'' \<mapsto> ''me too''] store0 (session_of bob) =
     (store0\<lparr>responses :=
        [\<lparr>id_r = 1, complaint_id = 1, responder_id = 3, message = ''me too'',
          is_internal = 0, created_at_r = t1\<rparr>]\<rparr>,
      [(Text ''Response added successfully!'', ''success'')],
      Redirect (view_complaint_ep 1)) \<and>
   view_complaint 1 store0 (session_of bob) =
     ([(Text ''Access denied!'', ''error'')], Redirect user_dashboard_ep)"
  by (simp add: respond_to_complaint_def respond_try_def login_required_def session_of_def
      get_Complaint_def get_User_def sqlite_integer_def store0_def bob_def alice_def admin0_def
      carol_def pothole_def form_getitem_def bind_exc_def add_Response_def next_id_def
      view_complaint_def)

text \<open>
  C4. A response stored by \<open>respond_to_complaint\<close> has \<open>is_internal = 1\<close>
  exactly when its author is an administrator or a staff member and the form carries
  \<^verbatim>\<open>internal=on\<close>; a citizen's response has \<open>is_internal = 0\<close> whatever the form
  says. The hypotheses are the conditions under which a response is stored: the
  session's user and the complaint exist and the form has a message.
\<close>

theorem respond_internal_flag:
  assumes "sess = Some s" and "get_User d (sess_user_id s) = Inr (Some u)"
    and "get_Complaint d cid = Inr (Some c)" and "frm ''message'' = Some m"
  shows "\<exists>r. responses (fst (respond_to_complaint now cid frm d sess)) = responses d @ [r] \<and>
             responder_id r = id_u u \<and> message r = m \<and>
             is_internal r =
               (if (role u = ADMIN \<or> role u = STAFF) \<and> frm ''internal'' = Some ''on''
                then 1 else 0) \<and>
             (if role u = CITIZEN then is_internal r = 0 else True)"
proof -
  have "id_u u = sess_user_id s"
    using assms(2) by (rule get_User_Some(1))
  then show ?thesis
    using respond_responses [OF assms(1,2), of now cid frm] assms(3,4)
    by auto
qed

theorem respond_internal_flag_witness:
  "role bob = CITIZEN \<and> role admin0 = ADMIN \<and>
   (\<exists>r. responses (fst (respond_to_complaint t1 1
            [''message'' \<mapsto> ''secret'', ''internal'' \<mapsto> ''on''] store0 (session_of bob))) =
          responses store0 @ [r] \<and> is_internal r = 0) \<and>
   (\<exists>r. responses (fst (respond_to_complaint t1 1
            [''message'' \<mapsto> ''secret'', ''internal'' \<mapsto> ''on''] store0 (session_of admin0))) =
          responses store0 @ [r] \<and> is_internal r = 1)"
proof -
  have c: "get_Complaint store0 1 = Inr (Some pothole)"
    by (simp add: get_Complaint_def sqlite_integer_def store0_def pothole_def)
  have m: "[''message'' \<mapsto> ''secret'', ''internal'' \<mapsto> ''on''] ''message'' = Some ''secret''"
    by simp
  have sb: "session_of bob = Some \<lparr>sess_user_id = 3, sess_username = ''bob'',
             sess_role = ''citizen'', permanent = True\<rparr>"
    by (simp add: session_of_def bob_def)
  have ub: "get_User store0 (sess_user_id \<lparr>sess_user_id = 3, sess_username = ''bob'',
             sess_role = ''citizen'', permanent = True\<rparr>) = Inr (Some bob)"
    by (simp add: get_User_def sqlite_integer_def store0_def admin0_def alice_def bob_def)
  have sa: "session_of admin0 = Some \<lparr>sess_user_id = 1, sess_username = ''admin'',
             sess_role = ''admin'', permanent = True\<rparr>"
    by (simp add: session_of_def admin0_def)
  have ua: "get_User store0 (sess_user_id \<lparr>sess_user_id = 1, sess_username = ''admin'',
             sess_role = ''admin'', permanent = True\<rparr>) = Inr (Some admin0)"
    by (simp add: get_User_def sqlite_integer_def store0_def admin0_def)
  have rb: "role bob = CITIZEN" by (simp add: bob_def)
  have ra: "role admin0 = ADMIN" by (simp add: admin0_def)
  from respond_internal_flag [where frm = "[''message'' \<mapsto> ''secret'', ''internal'' \<mapsto> ''on'']" and now = t1, OF sb ub c m] rb
  have 1: "\<exists>r. responses (fst (respond_to_complaint t1 1
            [''message'' \<mapsto> ''secret'', ''internal'' \<mapsto> ''on''] store0 (session_of bob))) =
          responses store0 @ [r] \<and> is_internal r = 0"
    by auto
  from respond_internal_flag [where frm = "[''message'' \<mapsto> ''secret'', ''internal'' \<mapsto> ''on'']" and now = t1, OF sa ua c m] ra
  have 2: "\<exists>r. responses (fst (respond_to_complaint t1 1
            [''message'' \<mapsto> ''secret'', ''internal'' \<mapsto> ''on''] store0 (session_of admin0))) =
          responses store0 @ [r] \<and> is_internal r = 1"
    by auto
  from 1 2 rb ra show ?thesis by blast
qed

section \<open>Reports\<close>

lemma reports_category_rows:
  assumes "sess = Some s"
    and "get_User d (sess_user_id s) = Inr (Some actor)"
    and "role actor = ADMIN \<or> role actor = STAFF"
  shows "\<exists>cc. category_counts (reports d sess) = Some cc \<and> distinct cc \<and> sorted cc \<and>
              set cc = category ` set (complaints d)"
proof -
  have "admin_required d sess = None"
    using assms by (rule admin_required_passes)
  then show ?thesis
    by (simp add: reports_def category_counts_def group_by_category_def)
qed

text \<open>
  C3. The claim asks for the number of complaints of each non-empty category.
  \<open>reports\<close> computes no count: the rows it hands to its template under the name
  \<^verbatim>\<open>category_counts\<close> hold the category alone. On the first store the single row is
  the category of the one complaint, where the report of the specification maps that
  category to 1; on the second store the empty category is a row as well.
\<close>

theorem reports_rows_carry_no_count:
  "category_counts (reports store0 (session_of admin0)) = Some [''Roads & Infrastructure''] \<and>
   countByCategory_spec (complaints store0) = [(''Roads & Infrastructure'', 1)] \<and>
   category_counts (reports store1 (session_of admin0)) = Some [[], ''Roads & Infrastructure''] \<and>
   countByCategory_spec (complaints store1) = [(''Roads & Infrastructure'', 1)]"
  by (simp add: category_counts_def reports_def admin_required_def session_of_def get_User_def
      sqlite_integer_def store0_def store1_def admin0_def group_by_category_def pothole_def
      blank_def countByCategory_spec_def)

section \<open>Status updates\<close>








section \<open>Registration\<close>

lemma add_User_Inr:
  assumes "add_User d u = Inr d'"
  shows "users d' = users d @ [u\<lparr>id_u := next_id (map id_u (users d))\<rparr>]"
    and "complaints d' = complaints d" and "responses d' = responses d"
    and "\<forall>x\<in>set (users d). email x \<noteq> email u \<and> username x \<noteq> username u"
  using assms by (auto simp: add_User_def find_None_iff split: if_splits)

lemma register_users:
  "users (fst (register g now meth frm d)) = users d \<or>
   (\<exists>u. users (fst (register g now meth frm d)) = users d @ [u] \<and> role u = CITIZEN \<and>
        frm ''email'' = Some (email u) \<and> frm ''username'' = Some (username u) \<and>
        (\<forall>x\<in>set (users d). email x \<noteq> email u \<and> username x \<noteq> username u))"
proof (cases "register_try g now frm d")
  case (Inl e)
  then show ?thesis by (simp add: register_def)
next
  case (Inr r)
  show ?thesis
  proof (cases "meth = POST")
    case False
    then show ?thesis by (simp add: register_def)
  next
    case True
    from Inr obtain em un where em: "frm ''email'' = Some em" and un: "frm ''username'' = Some un"
      by (auto simp: register_try_def bind_exc_def form_getitem_def split: option.splits)
    show ?thesis
    proof (cases "find (\<lambda>x. email x = em \<or> username x = un) (users d)")
      case (Some x)
      with Inr em un True show ?thesis
        by (auto simp: register_def register_try_def bind_exc_def form_getitem_def)
    next
      case None
      with Inr em un obtain fn pw d' where
        add: "add_User d \<lparr>id_u = 0, email = em, username = un, password_hash = g pw,
                full_name = fn, phone = Some (form_get frm ''phone'' []),
                address = Some (form_get frm ''address'' []), role = CITIZEN,
                created_at_u = now, is_active = 1\<rparr> = Inr d'"
        and r: "r = (d', [(Text ''Registration successful! Please log in.'', ''success'')],
                  Redirect login_ep)"
        by (auto simp: register_try_def bind_exc_def form_getitem_def
            split: option.splits sum.splits)
      from add_User_Inr(1,4) [OF add] Inr r True em un show ?thesis
        by (simp add: register_def)
    qed
  qed
qed

lemma register_success:
  assumes "register g now POST frm d =
             (d', [(Text ''Registration successful! Please log in.'', ''success'')], rp)"
  shows "\<exists>u. users d' = users d @ [u] \<and> role u = CITIZEN \<and>
             frm ''email'' = Some (email u) \<and> frm ''username'' = Some (username u) \<and>
             (\<forall>x\<in>set (users d). email x \<noteq> email u \<and> username x \<noteq> username u)"
proof -
  have "users d' \<noteq> users d"
  proof
    assume same: "users d' = users d"
    from assms obtain r where r: "register_try g now frm d = Inr r"
      by (auto simp: register_def split: sum.splits)
    then obtain em un where em: "frm ''email'' = Some em" and un: "frm ''username'' = Some un"
      by (auto simp: register_try_def bind_exc_def form_getitem_def split: option.splits)
    show False
    proof (cases "find (\<lambda>x. email x = em \<or> username x = un) (users d)")
      case (Some x)
      with assms r em un show False
        by (auto simp: register_def register_try_def bind_exc_def form_getitem_def)
    next
      case None
      with r em un obtain u d'' where "add_User d u = Inr d''" and "r = (d'', [(Text ''Registration successful! Please log in.'', ''success'')],
                  Redirect login_ep)"
        by (auto simp: register_try_def bind_exc_def form_getitem_def
            split: option.splits sum.splits)
      with assms r same show False
        by (auto simp: register_def dest: add_User_Inr(1))
    qed
  qed
  with register_users [of g now POST frm d] assms show ?thesis
    by simp
qed

lemma register_duplicate:
  assumes "frm ''email'' = Some e" and "frm ''username'' = Some u"
    and "x \<in> set (users d)" and "email x = e \<or> username x = u"
  shows "register g now POST frm d =
           (d, [(Text ''Email or username already exists!'', ''error'')], Redirect register_ep)"
proof -
  have "find (\<lambda>x. email x = e \<or> username x = u) (users d) \<noteq> None"
    using assms(3,4) by (auto simp: find_None_iff)
  then show ?thesis
    using assms(1,2)
    by (auto simp: register_def register_try_def bind_exc_def form_getitem_def)
qed

lemma register_keeps_unique:
  assumes "distinct (map email (users d))" and "distinct (map username (users d))"
  shows "distinct (map email (users (fst (register g now meth frm d)))) \<and>
         distinct (map username (users (fst (register g now meth frm d))))"
proof -
  consider "users (fst (register g now meth frm d)) = users d"
    | u where "users (fst (register g now meth frm d)) = users d @ [u]"
        and "\<forall>x\<in>set (users d). email x \<noteq> email u \<and> username x \<noteq> username u"
    using register_users [of g now meth frm d] by blast
  then show ?thesis
  proof cases
    case 1
    with assms show ?thesis by simp
  next
    case (2 u)
    from 2(2) have "email u \<notin> email ` set (users d)" and "username u \<notin> username ` set (users d)"
      by force+
    with 2(1) assms show ?thesis by simp
  qed
qed

text \<open>
  C6. After a registration that stored its user, every attempt whose form carries the
  same email or the same username (compared as the strings are) is refused with the
  duplicate message and returns the store as it was, on any store that still holds
  the users of the first attempt; and when emails and usernames were unique before
  the first attempt, they are unique after it.
\<close>

theorem register_rejects_duplicates:
  assumes "register g1 now1 POST frm1 d =
             (d1, [(Text ''Registration successful! Please log in.'', ''success'')], rp1)"
    and "frm2 ''email'' = Some e2" and "frm2 ''username'' = Some u2"
    and "frm1 ''email'' = Some e2 \<or> frm1 ''username'' = Some u2"
    and "set (users d1) \<subseteq> set (users d2)"
  shows "register g2 now2 POST frm2 d2 =
           (d2, [(Text ''Email or username already exists!'', ''error'')], Redirect register_ep) \<and>
         (if distinct (map email (users d)) \<and> distinct (map username (users d))
          then distinct (map email (users d1)) \<and> distinct (map username (users d1))
          else True)"
proof -
  from register_success [OF assms(1)] obtain u where
    u: "users d1 = users d @ [u]" "frm1 ''email'' = Some (email u)"
       "frm1 ''username'' = Some (username u)"
    by blast
  have "u \<in> set (users d2)"
    using u(1) assms(5) by auto
  moreover have "email u = e2 \<or> username u = u2"
    using u(2,3) assms(4) by auto
  ultimately have "register g2 now2 POST frm2 d2 =
      (d2, [(Text ''Email or username already exists!'', ''error'')], Redirect register_ep)"
    using assms(2,3) by (intro register_duplicate)
  moreover have "d1 = fst (register g1 now1 POST frm1 d)"
    using assms(1) by simp
  ultimately show ?thesis
    using register_keeps_unique [of d g1 now1 POST frm1] by simp
qed

theorem register_rejects_duplicates_witness:
  "register hash0 t1 POST dave_form store0 =
     (store0\<lparr>users := users store0 @ [dave]\<rparr>,
      [(Text ''Registration successful! Please log in.'', ''success'')], Redirect login_ep) \<and>
   register hash0 t2 POST david_form (store0\<lparr>users := users store0 @ [dave]\<rparr>) =
     (store0\<lparr>users := users store0 @ [dave]\<rparr>,
      [(Text ''Email or username already exists!'', ''error'')], Redirect register_ep) \<and>
   distinct (map email (users (store0\<lparr>users := users store0 @ [dave]\<rparr>))) \<and>
   distinct (map username (users (store0\<lparr>users := users store0 @ [dave]\<rparr>)))"
proof -
  have first: "register hash0 t1 POST dave_form store0 =
     (store0\<lparr>users := users store0 @ [dave]\<rparr>,
      [(Text ''Registration successful! Please log in.'', ''success'')], Redirect login_ep)"
    by (simp add: register_def register_try_def bind_exc_def form_getitem_def form_get_def
        add_User_def next_id_def dave_form_def dave_def hash0_def store0_def
        admin0_def alice_def bob_def carol_def)
  have e2: "david_form ''email'' = Some ''dave@example.org''"
    and u2: "david_form ''username'' = Some ''david''"
    by (simp_all add: david_form_def)
  have share: "dave_form ''email'' = Some ''dave@example.org'' \<or>
               dave_form ''username'' = Some ''david''"
    by (simp add: dave_form_def)
  have later: "set (users (store0\<lparr>users := users store0 @ [dave]\<rparr>)) \<subseteq>
               set (users (store0\<lparr>users := users store0 @ [dave]\<rparr>))"
    by simp
  have uniq: "distinct (map email (users store0)) \<and> distinct (map username (users store0))"
    by (simp add: store0_def admin0_def alice_def bob_def carol_def)
  from register_rejects_duplicates [OF first e2 u2 share later, of hash0 t2] first uniq
  show ?thesis by simp
qed

section \<open>Authentication\<close>

lemma first_User_by_username_None:
  "first_User_by_username d un = None \<longleftrightarrow> un \<notin> username ` set (users d)"
  by (auto simp: first_User_by_username_def find_None_iff)

lemma first_User_by_username_Some:
  "first_User_by_username d un = Some u \<Longrightarrow> username u = un \<and> u \<in> set (users d)"
  by (auto simp: first_User_by_username_def find_Some_iff)

text \<open>
  C7. For a posted form with a username and a password, \<open>login\<close> answers with the
  invalid-credentials message and leaves the session as it was exactly when no user
  has the username, or the password fails the check against the stored hash, or the
  user's \<open>is_active\<close> is zero; in every other case it stores the identity of the
  user of that username in the session and welcomes that user.
\<close>

theorem login_fails_iff:
  assumes "frm ''username'' = Some un" and "frm ''password'' = Some pw"
  shows "((login chk POST frm d sess =
            (sess, [(Text ''Invalid credentials or inactive account!'', ''error'')],
             Render ''login.html'')) =
          (un \<notin> username ` set (users d) \<or>
           (\<exists>u. first_User_by_username d un = Some u \<and>
                (\<not> chk (password_hash u) pw \<or> is_active u = 0)))) \<and>
         (\<forall>u. first_User_by_username d un = Some u \<and> chk (password_hash u) pw \<and>
              is_active u \<noteq> 0 \<longrightarrow>
              username u = un \<and> u \<in> set (users d) \<and>
              login chk POST frm d sess =
                (session_of u,
                 [(Text (''Welcome back, '' @ full_name u @ ''!''), ''success'')],
                 Redirect (if role u = ADMIN \<or> role u = STAFF
                           then admin_dashboard_ep else user_dashboard_ep)))"
proof (cases "first_User_by_username d un")
  case None
  then have "un \<notin> username ` set (users d)"
    by (simp add: first_User_by_username_None)
  with None assms show ?thesis
    by (simp add: login_def form_getitem_def)
next
  case (Some u)
  then have "un \<in> username ` set (users d)"
    using first_User_by_username_None [of d un] by auto
  moreover have "username u = un \<and> u \<in> set (users d)"
    using Some by (rule first_User_by_username_Some)
  ultimately show ?thesis
    using Some assms
    by (auto simp: login_def form_getitem_def session_of_def)
qed

theorem login_fails_iff_witness:
  "login check0 POST [''username'' \<mapsto> ''alice'', ''password'' \<mapsto> ''wonderland''] store0 None =
     (session_of alice, [(Text ''Welcome back, Alice A!'', ''success'')],
      Redirect user_dashboard_ep) \<and>
   login check0 POST [''username'' \<mapsto> ''alice'', ''password'' \<mapsto> ''guess''] store0 None =
     (None, [(Text ''Invalid credentials or inactive account!'', ''error'')],
      Render ''login.html'') \<and>
   login check0 POST [''username'' \<mapsto> ''carol'', ''password'' \<mapsto> ''singer''] store0 None =
     (None, [(Text ''Invalid credentials or inactive account!'', ''error'')],
      Render ''login.html'') \<and>
   login check0 POST [''username'' \<mapsto> ''zed'', ''password'' \<mapsto> ''wonderland''] store0 None =
     (None, [(Text ''Invalid credentials or inactive account!'', ''error'')],
      Render ''login.html'')"
proof -
  have fa: "first_User_by_username store0 ''alice'' = Some alice"
    by (simp add: first_User_by_username_def store0_def admin0_def alice_def)
  have fc: "first_User_by_username store0 ''carol'' = Some carol"
    by (simp add: first_User_by_username_def store0_def admin0_def alice_def bob_def carol_def)
  have fz: "''zed'' \<notin> username ` set (users store0)"
    by (simp add: store0_def admin0_def alice_def bob_def carol_def)
  have 1: "login check0 POST [''username'' \<mapsto> ''alice'', ''password'' \<mapsto> ''wonderland'']
             store0 None =
           (session_of alice, [(Text ''Welcome back, Alice A!'', ''success'')],
            Redirect user_dashboard_ep)"
    using login_fails_iff [where frm = "[''username'' \<mapsto> ''alice'', ''password'' \<mapsto> ''wonderland'']"
        and un = "''alice''" and pw = "''wonderland''" and chk = check0 and d = store0
        and sess = None] fa
    by (simp add: alice_def check0_def hash0_def)
  have 2: "login check0 POST [''username'' \<mapsto> ''alice'', ''password'' \<mapsto> ''guess'']
             store0 None =
           (None, [(Text ''Invalid credentials or inactive account!'', ''error'')],
            Render ''login.html'')"
    using login_fails_iff [where frm = "[''username'' \<mapsto> ''alice'', ''password'' \<mapsto> ''guess'']"
        and un = "''alice''" and pw = "''guess''" and chk = check0 and d = store0
        and sess = None] fa
    by (simp add: alice_def check0_def hash0_def)
  have 3: "login check0 POST [''username'' \<mapsto> ''carol'', ''password'' \<mapsto> ''singer'']
             store0 None =
           (None, [(Text ''Invalid credentials or inactive account!'', ''error'')],
            Render ''login.html'')"
    using login_fails_iff [where frm = "[''username'' \<mapsto> ''carol'', ''password'' \<mapsto> ''singer'']"
        and un = "''carol''" and pw = "''singer''" and chk = check0 and d = store0
        and sess = None] fc
    by (simp add: carol_def)
  have 4: "login check0 POST [''username'' \<mapsto> ''zed'', ''password'' \<mapsto> ''wonderland'']
             store0 None =
           (None, [(Text ''Invalid credentials or inactive account!'', ''error'')],
            Render ''login.html'')"
    using login_fails_iff [where frm = "[''username'' \<mapsto> ''zed'', ''password'' \<mapsto> ''wonderland'']"
        and un = "''zed''" and pw = "''wonderland''" and chk = check0 and d = store0
        and sess = None] fz
    by simp
  from 1 2 3 4 show ?thesis by blast
qed

section \<open>Who creates users\<close>

lemma add_Complaint_users: "add_Complaint d c = Inr d' \<Longrightarrow> users d' = users d"
  by (auto simp: add_Complaint_def split: if_splits)

lemma new_complaint_users:
  "users (fst (new_complaint now tc tu rnd meth frm d sess)) = users d"
  by (auto simp: new_complaint_def new_complaint_try_def bind_exc_def
      split: option.splits sum.splits dest: add_Complaint_users)

lemma update_complaint_users:
  "users (fst (update_complaint py_int tr tu cid frm d sess)) = users d"
  by (auto simp: update_complaint_def commit_Complaint_def split: option.splits sum.splits)

lemma respond_to_complaint_users:
  "users (fst (respond_to_complaint now cid frm d sess)) = users d"
  by (auto simp: respond_to_complaint_def respond_try_def add_Response_def bind_exc_def
      split: option.splits sum.splits)

lemma escalate_complaint_users:
  "users (fst (escalate_complaint now cid d sess)) = users d"
  by (auto simp: escalate_complaint_def commit_Complaint_def split: option.splits sum.splits)

lemma create_admin_user_fresh:
  assumes "\<forall>x\<in>set (users d). username x \<noteq> ''admin'' \<and> email x \<noteq> ''admin@localgov.com''"
  shows "\<exists>d' a. create_admin_user g now d = Inr (d', a) \<and> users d' = users d @ [a] \<and>
               role a = ADMIN \<and> username a = ''admin''"
proof -
  have "first_User_by_username d ''admin'' = None"
    using assms by (auto simp: first_User_by_username_def find_None_iff)
  moreover have "find (\<lambda>x. email x = ''admin@localgov.com'' \<or> username x = ''admin'') (users d) = None"
    using assms by (auto simp: find_None_iff)
  ultimately show ?thesis
    by (simp add: create_admin_user_def add_User_def bind_exc_def)
qed

text \<open>
  C9. \<open>register\<close> either leaves the users as they were or appends one user whose
  role is \<open>CITIZEN\<close>, whatever the form holds; no other handler changes the users;
  and \<open>create_admin_user\<close>, on a store where neither the name \<^verbatim>\<open>admin\<close> nor the
  administrator's email is taken, appends a user of role \<open>ADMIN\<close>.
\<close>

theorem only_bootstrap_creates_admin:
  "(users (fst (register g now meth frm d)) = users d \<or>
    (\<exists>u. users (fst (register g now meth frm d)) = users d @ [u] \<and> role u = CITIZEN)) \<and>
   users (fst (new_complaint now1 tc1 tu1 rnd meth1 frm1 d sess1)) = users d \<and>
   users (fst (update_complaint py_int tr2 tu2 cid2 frm2 d sess2)) = users d \<and>
   users (fst (respond_to_complaint now3 cid3 frm3 d sess3)) = users d \<and>
   users (fst (escalate_complaint now4 cid4 d sess4)) = users d \<and>
   ((\<forall>x\<in>set (users d). username x \<noteq> ''admin'' \<and> email x \<noteq> ''admin@localgov.com'') \<longrightarrow>
    (\<exists>d' a. create_admin_user g5 now5 d = Inr (d', a) \<and> users d' = users d @ [a] \<and>
            role a = ADMIN \<and> username a = ''admin''))"
proof -
  have "users (fst (register g now meth frm d)) = users d \<or>
    (\<exists>u. users (fst (register g now meth frm d)) = users d @ [u] \<and> role u = CITIZEN)"
    using register_users [of g now meth frm d] by blast
  then show ?thesis
    using create_admin_user_fresh [of d g5 now5]
    by (simp only: new_complaint_users update_complaint_users respond_to_complaint_users
        escalate_complaint_users) blast
qed

theorem only_bootstrap_creates_admin_witness:
  "dave_form ''role'' = Some ''admin'' \<and>
   users (fst (register hash0 t1 POST dave_form store0)) = users store0 @ [dave] \<and>
   role dave = CITIZEN \<and>
   create_admin_user hash0 t0 \<lparr>users = [], complaints = [], responses = []\<rparr> =
     Inr (\<lparr>users = [admin0], complaints = [], responses = []\<rparr>, admin0) \<and>
   role admin0 = ADMIN"
proof -
  have reg: "users (fst (register hash0 t1 POST dave_form store0)) = users store0 @ [dave]"
    by (simp add: register_def register_try_def bind_exc_def form_getitem_def form_get_def
        add_User_def next_id_def dave_form_def dave_def hash0_def store0_def
        admin0_def alice_def bob_def carol_def)
  have boot: "create_admin_user hash0 t0 \<lparr>users = [], complaints = [], responses = []\<rparr> =
     Inr (\<lparr>users = [admin0], complaints = [], responses = []\<rparr>, admin0)"
    by (simp add: create_admin_user_def first_User_by_username_def add_User_def bind_exc_def
        next_id_def hash0_def admin0_def)
  from only_bootstrap_creates_admin [of hash0 t1 POST dave_form store0] reg boot
  show ?thesis
    by (simp add: dave_form_def dave_def admin0_def)
qed

section \<open>Ticket numbers and the defaults of a new complaint\<close>

lemma char_of_numeral_eq: "char_of (n::nat) = c \<longleftrightarrow> n mod 256 = of_char c"
  by (simp add: char_of_eq_iff take_bit_eq_mod)

lemma digit_char_is_digit: "is_decimal_digit (digit_char n)"
proof -
  have "n mod 10 < 10" by simp
  then have "n mod 10 = 0 \<or> n mod 10 = 1 \<or> n mod 10 = 2 \<or> n mod 10 = 3 \<or> n mod 10 = 4 \<or>
             n mod 10 = 5 \<or> n mod 10 = 6 \<or> n mod 10 = 7 \<or> n mod 10 = 8 \<or> n mod 10 = 9"
    by arith
  then show ?thesis
    unfolding digit_char_def is_decimal_digit_def
    by (elim disjE) (simp_all add: char_of_numeral_eq)
qed

lemma digit_char_value: "of_char (digit_char n) - 48 = n mod 10"
  unfolding digit_char_def by simp

lemma length_zero_padded: "length (zero_padded w n) = w"
  by (induction w arbitrary: n) simp_all

lemma digits_zero_padded: "list_all is_decimal_digit (zero_padded w n)"
  by (induction w arbitrary: n) (simp_all add: digit_char_is_digit)

lemma foldl_zero_padded:
  "foldl (\<lambda>a c. 10 * a + (of_char c - 48)) a (zero_padded w n) = a * 10 ^ w + n mod 10 ^ w"
proof (induction w arbitrary: n)
  case 0
  then show ?case by simp
next
  case (Suc w)
  have "n mod (10 * 10 ^ w) = 10 * (n div 10 mod 10 ^ w) + n mod 10"
    by (rule mod_mult2_eq)
  with Suc show ?case
    by (simp add: digit_char_value algebra_simps)
qed

lemma length_strftime_Ymd: "length (strftime_Ymd t) = 8"
  by (simp add: strftime_Ymd_def length_zero_padded)

lemma digits_strftime_Ymd: "list_all is_decimal_digit (strftime_Ymd t)"
  by (simp add: strftime_Ymd_def digits_zero_padded)

lemma decimal_value_strftime_Ymd:
  assumes "year t \<le> 9999" and "month t \<le> 12" and "day t \<le> 31"
  shows "decimal_value (strftime_Ymd t) = year t * 10000 + month t * 100 + day t"
  using assms by (simp add: decimal_value_def strftime_Ymd_def foldl_zero_padded)

lemma upper_hex_char: "is_upper_hex_digit (upper_char (hex_char n))"
proof (cases "n mod 16 < 10")
  case True
  then have "n mod 16 = 0 \<or> n mod 16 = 1 \<or> n mod 16 = 2 \<or> n mod 16 = 3 \<or> n mod 16 = 4 \<or>
             n mod 16 = 5 \<or> n mod 16 = 6 \<or> n mod 16 = 7 \<or> n mod 16 = 8 \<or> n mod 16 = 9"
    by arith
  then show ?thesis
    unfolding hex_char_def upper_char_def is_upper_hex_digit_def
    by (elim disjE) (simp_all add: char_of_numeral_eq)
next
  case False
  moreover have "n mod 16 < 16" by simp
  ultimately have "n mod 16 = 10 \<or> n mod 16 = 11 \<or> n mod 16 = 12 \<or> n mod 16 = 13 \<or>
             n mod 16 = 14 \<or> n mod 16 = 15"
    by arith
  then show ?thesis
    unfolding hex_char_def upper_char_def is_upper_hex_digit_def
    by (elim disjE) (simp_all add: char_of_numeral_eq)
qed

lemma length_upper_token_hex: "length (upper (token_hex rnd)) = 6"
  by (cases rnd) (simp add: upper_def token_hex_def hex_byte_def)

lemma hex_upper_token_hex: "list_all is_upper_hex_digit (upper (token_hex rnd))"
  by (cases rnd) (simp add: upper_def token_hex_def hex_byte_def upper_hex_char)

lemma date_of_make_ticket_number:
  "take 8 (drop 5 (make_ticket_number now rnd)) = strftime_Ymd now"
  by (simp add: make_ticket_number_def length_strftime_Ymd)

lemma ticket_form_make_ticket_number: "ticket_form (make_ticket_number now rnd)"
  unfolding ticket_form_def date_of_make_ticket_number
  by (simp add: make_ticket_number_def length_strftime_Ymd
      digits_strftime_Ymd length_upper_token_hex hex_upper_token_hex)

lemma add_Complaint_Inr:
  assumes "add_Complaint d c = Inr d'"
  shows "complaints d' = complaints d @ [c\<lparr>id_c := next_id (map id_c (complaints d))\<rparr>]"
  using assms by (auto simp: add_Complaint_def split: if_splits)

lemma new_complaint_try_Inr:
  assumes "new_complaint_try now tc tu rnd s frm d = Inr d'"
  shows "\<exists>c. complaints d' = complaints d @ [c] \<and>
             ticket_number c = make_ticket_number now rnd \<and> user_id c = sess_user_id s \<and>
             status c = PENDING \<and> escalation_count c = 0 \<and>
             ComplaintPriority_getitem (form_get frm ''priority'' ''MEDIUM'') = Inr (priority c)"
proof -
  from assms obtain ti de ca pr where
    pr: "ComplaintPriority_getitem (form_get frm ''priority'' ''MEDIUM'') = Inr pr" and
    add: "add_Complaint d
            \<lparr>id_c = 0, ticket_number = make_ticket_number now rnd,
             user_id = sess_user_id s, title = ti, description = de, category = ca,
             location = Some (form_get frm ''location'' []),
             status = PENDING, priority = pr, assigned_to = None,
             created_at_c = tc, updated_at = tu, resolved_at = None,
             escalation_count = 0\<rparr> = Inr d'"
    by (auto simp: new_complaint_try_def bind_exc_def split: sum.splits)
  from add_Complaint_Inr [OF add] pr show ?thesis by simp
qed

lemma new_complaint_complaints:
  "complaints (fst (new_complaint now tc tu rnd meth frm d sess)) = complaints d \<or>
   (\<exists>c. complaints (fst (new_complaint now tc tu rnd meth frm d sess)) = complaints d @ [c] \<and>
        ticket_number c = make_ticket_number now rnd \<and>
        status c = PENDING \<and> escalation_count c = 0 \<and>
        ComplaintPriority_getitem (form_get frm ''priority'' ''MEDIUM'') = Inr (priority c))"
proof (cases "login_required sess = None \<and> meth = POST")
  case False
  then show ?thesis
    by (auto simp: new_complaint_def split: option.splits)
next
  case True
  show ?thesis
  proof (cases "new_complaint_try now tc tu rnd (the sess) frm d")
    case (Inl e)
    with True show ?thesis by (simp add: new_complaint_def)
  next
    case (Inr d')
    from new_complaint_try_Inr [OF Inr] True Inr show ?thesis
      by (auto simp: new_complaint_def)
  qed
qed

lemma new_complaint_creates:
  assumes "sess = Some s" and "frm ''title'' = Some ti" and "frm ''description'' = Some de"
    and "frm ''category'' = Some ca" and "frm ''priority'' = None"
    and "make_ticket_number now rnd \<notin> ticket_number ` set (complaints d)"
  shows "complaints (fst (new_complaint now tc tu rnd POST frm d sess)) \<noteq> complaints d"
proof -
  have "find (\<lambda>x. ticket_number x = make_ticket_number now rnd) (complaints d) = None"
    using assms(6) by (force simp: find_None_iff)
  then show ?thesis
    using assms(1-5)
    by (simp add: new_complaint_def login_required_def new_complaint_try_def bind_exc_def
        form_getitem_def form_get_def ComplaintPriority_getitem_def add_Complaint_def)
qed

lemma zero_padded_2: "zero_padded 2 n = [digit_char (n div 10), digit_char n]"
proof -
  have "zero_padded (Suc (Suc 0)) n = [digit_char (n div 10), digit_char n]"
    by simp
  then show ?thesis by (simp only: numeral_2_eq_2)
qed

lemma zero_padded_4:
  "zero_padded 4 n =
     [digit_char (n div 10 div 10 div 10), digit_char (n div 10 div 10),
      digit_char (n div 10), digit_char n]"
proof -
  have "zero_padded (Suc (Suc (Suc (Suc 0)))) n =
     [digit_char (n div 10 div 10 div 10), digit_char (n div 10 div 10),
      digit_char (n div 10), digit_char n]"
    by simp
  moreover have "(4::nat) = Suc (Suc (Suc (Suc 0)))"
    by simp
  ultimately show ?thesis by (simp only:)
qed

text \<open>
  C8. Whatever the request, \<open>new_complaint\<close> either leaves the complaints as they
  were or appends one complaint whose ticket number has the form
  \<^verbatim>\<open>COMP-<8 digits>-<6 upper-case hexadecimal characters>\<close>, the eight digits
  reading as year, month and day of the clock, whose status is \<open>PENDING\<close> and
  whose priority is \<open>MEDIUM\<close> when the form names none (and the named one
  otherwise). A complaint is appended when the session holds a user, the form is
  posted with title, description and category and no priority, and the ticket number
  is not taken. The year is taken to have four digits, as it has for every clock
  reading from the year 1000 on.
\<close>

theorem new_complaint_ticket_and_defaults:
  assumes "1000 \<le> year now" and "year now \<le> 9999" and "month now \<le> 12" and "day now \<le> 31"
  shows "(complaints (fst (new_complaint now tc tu rnd meth frm d sess)) = complaints d \<or>
          (\<exists>c. complaints (fst (new_complaint now tc tu rnd meth frm d sess)) =
                 complaints d @ [c] \<and>
               ticket_form (ticket_number c) \<and>
               decimal_value (take 8 (drop 5 (ticket_number c))) =
                 year now * 10000 + month now * 100 + day now \<and>
               status c = PENDING \<and>
               (if frm ''priority'' = None then priority c = MEDIUM
                else ComplaintPriority_getitem (the (frm ''priority'')) = Inr (priority c)))) \<and>
         (if sess \<noteq> None \<and> meth = POST \<and> frm ''title'' \<noteq> None \<and>
             frm ''description'' \<noteq> None \<and> frm ''category'' \<noteq> None \<and>
             frm ''priority'' = None \<and>
             make_ticket_number now rnd \<notin> ticket_number ` set (complaints d)
          then complaints (fst (new_complaint now tc tu rnd meth frm d sess)) \<noteq> complaints d
          else True)"
proof -
  have shape: "complaints (fst (new_complaint now tc tu rnd meth frm d sess)) = complaints d \<or>
          (\<exists>c. complaints (fst (new_complaint now tc tu rnd meth frm d sess)) =
                 complaints d @ [c] \<and>
               ticket_form (ticket_number c) \<and>
               decimal_value (take 8 (drop 5 (ticket_number c))) =
                 year now * 10000 + month now * 100 + day now \<and>
               status c = PENDING \<and>
               (if frm ''priority'' = None then priority c = MEDIUM
                else ComplaintPriority_getitem (the (frm ''priority'')) = Inr (priority c)))"
    using new_complaint_complaints [of now tc tu rnd meth frm d sess]
  proof
    assume "complaints (fst (new_complaint now tc tu rnd meth frm d sess)) = complaints d"
    then show ?thesis by simp
  next
    assume "\<exists>c. complaints (fst (new_complaint now tc tu rnd meth frm d sess)) = complaints d @ [c] \<and>
        ticket_number c = make_ticket_number now rnd \<and>
        status c = PENDING \<and> escalation_count c = 0 \<and>
        ComplaintPriority_getitem (form_get frm ''priority'' ''MEDIUM'') = Inr (priority c)"
    then obtain c where c:
      "complaints (fst (new_complaint now tc tu rnd meth frm d sess)) = complaints d @ [c]"
      "ticket_number c = make_ticket_number now rnd" "status c = PENDING"
      "ComplaintPriority_getitem (form_get frm ''priority'' ''MEDIUM'') = Inr (priority c)"
      by blast
    have form: "ticket_form (ticket_number c)"
      by (simp add: c(2) ticket_form_make_ticket_number)
    have date: "decimal_value (take 8 (drop 5 (ticket_number c))) =
                  year now * 10000 + month now * 100 + day now"
      using assms(2-4)
      by (simp add: c(2) date_of_make_ticket_number decimal_value_strftime_Ymd)
    have prio: "if frm ''priority'' = None then priority c = MEDIUM
                else ComplaintPriority_getitem (the (frm ''priority'')) = Inr (priority c)"
      using c(4)
      by (cases "frm ''priority''") (auto simp: form_get_def ComplaintPriority_getitem_def)
    from c(1) c(3) form date prio show ?thesis by blast
  qed
  have made: "complaints (fst (new_complaint now tc tu rnd meth frm d sess)) \<noteq> complaints d"
    if "sess \<noteq> None" "meth = POST" "frm ''title'' \<noteq> None" "frm ''description'' \<noteq> None"
      "frm ''category'' \<noteq> None" "frm ''priority'' = None"
      "make_ticket_number now rnd \<notin> ticket_number ` set (complaints d)"
    using that new_complaint_creates [of sess _ frm _ _ _ now rnd d tc tu] by auto
  from shape made show ?thesis by simp
qed

theorem new_complaint_ticket_and_defaults_witness:
  "complaints (fst (new_complaint t1 t1 t1 (0x0A, 0xB1, 0xFF) POST leak_form store0
                      (session_of alice))) = complaints store0 @ [leak] \<and>
   ticket_number leak = ''COMP-20240311-0AB1FF'' \<and> ticket_form (ticket_number leak) \<and>
   status leak = PENDING \<and> priority leak = MEDIUM"
proof -
  have tick: "make_ticket_number t1 (0x0A, 0xB1, 0xFF) = ''COMP-20240311-0AB1FF''"
    by (simp add: make_ticket_number_def strftime_Ymd_def zero_padded_2 zero_padded_4
        digit_char_def t1_def token_hex_def hex_byte_def hex_char_def upper_def upper_char_def
        char_of_numeral_eq)
  have ev: "complaints (fst (new_complaint t1 t1 t1 (0x0A, 0xB1, 0xFF) POST leak_form store0
                      (session_of alice))) = complaints store0 @ [leak]"
    by (simp add: tick new_complaint_def login_required_def session_of_def
        new_complaint_try_def bind_exc_def form_getitem_def form_get_def
        ComplaintPriority_getitem_def add_Complaint_def next_id_def
        leak_form_def leak_def store0_def pothole_def alice_def)
  have b: "1000 \<le> year t1" "year t1 \<le> 9999" "month t1 \<le> 12" "day t1 \<le> 31"
    by (simp_all add: t1_def)
  from new_complaint_ticket_and_defaults
         [OF b, of t1 t1 "(0x0A, 0xB1, 0xFF)" POST leak_form store0 "session_of alice"] ev
  have "ticket_form (ticket_number leak)"
    by simp
  with ev show ?thesis
    by (simp add: leak_def)
qed

end
